theory Spec2Isabelle
  imports Complex_Main
begin

section \<open>JavaScript strings\<close>

text \<open>
  Strings are character lists. The two characters the field-path quoting is about are
  named: the backtick that quotes a segment and the backslash that escapes it.
\<close>

definition backtick :: char where
  "backtick = CHR 0x60"

definition backslash :: char where
  "backslash = CHR 0x5C"

text \<open>\<^verbatim>\<open>s.startsWith(p)\<close>.\<close>

definition startsWith :: "string \<Rightarrow> string \<Rightarrow> bool" where
  "startsWith s p = (take (length p) s = p)"

text \<open>\<^verbatim>\<open>s.includes(p)\<close>: \<open>p\<close> occurs in \<open>s\<close> as a contiguous run.\<close>

fun str_includes :: "string \<Rightarrow> string \<Rightarrow> bool" where
  "str_includes [] p = (p = [])"
| "str_includes (c # cs) p = (startsWith (c # cs) p \<or> str_includes cs p)"

text \<open>
  \<^verbatim>\<open>s.replace(p, r)\<close> with a string pattern: only the first occurrence of \<open>p\<close> is
  replaced. (None of the replacement strings of the sources holds a dollar sign.)
\<close>

fun replace_first :: "string \<Rightarrow> string \<Rightarrow> string \<Rightarrow> string" where
  "replace_first p r [] = (if p = [] then r else [])"
| "replace_first p r (c # cs) =
     (if startsWith (c # cs) p then r @ drop (length p) (c # cs)
      else c # replace_first p r cs)"

text \<open>
  \<^verbatim>\<open>s.replace(/c/g, r)\<close> for a one-character pattern with the global flag: every
  occurrence is replaced.
\<close>

definition replace_all_char :: "char \<Rightarrow> string \<Rightarrow> string \<Rightarrow> string" where
  "replace_all_char c r s = concat (map (\<lambda>x. if x = c then r else [x]) s)"

text \<open>\<^verbatim>\<open>s.split(c)\<close> for a one-character separator: never the empty list.\<close>

fun split_char :: "char \<Rightarrow> string \<Rightarrow> string list" where
  "split_char c [] = [[]]"
| "split_char c (x # xs) =
     (if x = c then [] # split_char c xs
      else (case split_char c xs of
              [] \<Rightarrow> [[x]]
            | seg # segs \<Rightarrow> (x # seg) # segs))"

text \<open>\<^verbatim>\<open>xs.join(sep)\<close>.\<close>

fun join :: "string \<Rightarrow> string list \<Rightarrow> string" where
  "join sep [] = []"
| "join sep [s] = s"
| "join sep (s # t # ts) = s @ sep @ join sep (t # ts)"

text \<open>\<^verbatim>\<open>s.toLowerCase()\<close> on the ASCII letters; every other character is kept.\<close>

definition lower_char :: "char \<Rightarrow> char" where
  "lower_char c =
     (case map_of (zip ''ABCDEFGHIJKLMNOPQRSTUVWXYZ'' ''abcdefghijklmnopqrstuvwxyz'') c of
        None \<Rightarrow> c
      | Some d \<Rightarrow> d)"

definition toLowerCase :: "string \<Rightarrow> string" where
  "toLowerCase s = map lower_char s"

text \<open>\<^verbatim>\<open>String(n)\<close> for a non-negative integer and for an integer: decimal digits.\<close>

definition digit_char :: "nat \<Rightarrow> char" where
  "digit_char d = ''0123456789'' ! d"

fun show_nat :: "nat \<Rightarrow> string" where
  "show_nat n = (if n < 10 then [digit_char n] else show_nat (n div 10) @ [digit_char (n mod 10)])"

declare show_nat.simps [simp del]

definition show_int :: "int \<Rightarrow> string" where
  "show_int i = (if i < 0 then CHR ''-'' # show_nat (nat (- i)) else show_nat (nat i))"

section \<open>Values\<close>

text \<open>
  A JavaScript number is \<open>NaN\<close> or a finite number, carried exactly (the infinities
  are left out). A native value is what the callers pass as \<^verbatim>\<open>any\<close>: a date holds
  its milliseconds since the epoch, an object its entries in the order
  \<^verbatim>\<open>Object.entries\<close> lists them.
\<close>

datatype jsnum = NaN | Finite rat

datatype native =
    JUndefined
  | JNull
  | JBool bool
  | JNumber jsnum
  | JString string
  | JDate int
  | JArray "native list"
  | JObject "(string \<times> native) list"

text \<open>
  Modelled from the spec: the declaration of \<^verbatim>\<open>FirestoreAPI.Value\<close> is not among the
  sources. The spec's data model gives the wire value as a tagged variant of null,
  boolean, integer, double, timestamp, string, bytes, reference, geopoint, array and
  map, the integer carried as a decimal string. A timestamp is held to the millisecond,
  a geopoint holds its latitude and its longitude.
\<close>

datatype wire_value =
    NullValue
  | BooleanValue bool
  | IntegerValue string
  | DoubleValue jsnum
  | TimestampValue int
  | StringValue string
  | BytesValue string
  | ReferenceValue string
  | GeoPointValue jsnum jsnum
  | ArrayValue "wire_value list"
  | MapValue "(string \<times> wire_value) list"

text \<open>\<^verbatim>\<open>value == null\<close>: true of \<^verbatim>\<open>null\<close> and of \<^verbatim>\<open>undefined\<close> only.\<close>

fun is_nullish :: "native \<Rightarrow> bool" where
  "is_nullish JUndefined = True"
| "is_nullish JNull = True"
| "is_nullish _ = False"

text \<open>\<^verbatim>\<open>Util_.isNumberNaN(value)\<close>: the value is the number \<open>NaN\<close>.\<close>

fun isNumberNaN :: "native \<Rightarrow> bool" where
  "isNumberNaN (JNumber NaN) = True"
| "isNumberNaN _ = False"

text \<open>JavaScript truthiness, as \<^verbatim>\<open>if (v)\<close> and \<^verbatim>\<open>v && ...\<close> read a value.\<close>

fun truthy :: "native \<Rightarrow> bool" where
  "truthy JUndefined = False"
| "truthy JNull = False"
| "truthy (JBool b) = b"
| "truthy (JNumber NaN) = False"
| "truthy (JNumber (Finite r)) = (r \<noteq> 0)"
| "truthy (JString s) = (s \<noteq> [])"
| "truthy (JDate _) = True"
| "truthy (JArray _) = True"
| "truthy (JObject _) = True"

text \<open>
  \<^verbatim>\<open>v.k\<close>: the property \<open>k\<close> of a value; \<^verbatim>\<open>undefined\<close> when an object has no such
  entry, and for the named properties read here on anything that is not a plain object.
\<close>

fun get_prop :: "native \<Rightarrow> string \<Rightarrow> native" where
  "get_prop (JObject kvs) k = (case map_of kvs k of None \<Rightarrow> JUndefined | Some v \<Rightarrow> v)"
| "get_prop _ k = JUndefined"

section \<open>Errors\<close>

text \<open>A thrown error, by its class and its message.\<close>

datatype error =
    Error string
  | TypeError string
  | RangeError string

definition message :: "error \<Rightarrow> string" where
  "message e = (case e of Error m \<Rightarrow> m | TypeError m \<Rightarrow> m | RangeError m \<Rightarrow> m)"

section \<open>Query\<close>

subsection \<open>The operator tables\<close>

text \<open>
  The enums \<^verbatim>\<open>FieldFilterOps_\<close> and \<^verbatim>\<open>UnaryFilterOps_\<close> are objects from the
  spelling of an operator to its wire name.
\<close>

definition FieldFilterOps :: "(string \<times> string) list" where
  "FieldFilterOps =
     [(''=='', ''EQUAL''),
      (''==='', ''EQUAL''),
      (''!='', ''NOT_EQUAL''),
      (''!=='', ''NOT_EQUAL''),
      (''<'', ''LESS_THAN''),
      (''<='', ''LESS_THAN_OR_EQUAL''),
      (''>'', ''GREATER_THAN''),
      (''>='', ''GREATER_THAN_OR_EQUAL''),
      (''contains'', ''ARRAY_CONTAINS''),
      (''containsany'', ''ARRAY_CONTAINS_ANY''),
      (''in'', ''IN''),
      (''notin'', ''NOT_IN''),
      (''not-in'', ''NOT_IN'')]"

definition UnaryFilterOps :: "(string \<times> string) list" where
  "UnaryFilterOps = [(''nan'', ''IS_NAN''), (''null'', ''IS_NULL'')]"

text \<open>
  The code tests membership with \<^verbatim>\<open>key in object\<close>, which also finds the names every
  object inherits from \<^verbatim>\<open>Object.prototype\<close>.
\<close>

definition Object_prototype_keys :: "string list" where
  "Object_prototype_keys =
     [''constructor'', ''__defineGetter__'', ''__defineSetter__'', ''hasOwnProperty'',
      ''__lookupGetter__'', ''__lookupSetter__'', ''isPrototypeOf'',
      ''propertyIsEnumerable'', ''toString'', ''valueOf'', ''__proto__'',
      ''toLocaleString'']"

definition js_in :: "string \<Rightarrow> (string \<times> string) list \<Rightarrow> bool" where
  "js_in k obj = (k \<in> set (map fst obj) \<or> k \<in> set Object_prototype_keys)"

text \<open>
  \<^verbatim>\<open>object[key]\<close>: a member of the enum, a member inherited from the prototype (not
  a string), or \<^verbatim>\<open>undefined\<close>.
\<close>

datatype member = Member string | Inherited string | NoMember

definition js_get :: "(string \<times> string) list \<Rightarrow> string \<Rightarrow> member" where
  "js_get obj k =
     (case map_of obj k of
        Some v \<Rightarrow> Member v
      | None \<Rightarrow> if k \<in> set Object_prototype_keys then Inherited k else NoMember)"

text \<open>
  The operator argument of \<^verbatim>\<open>filter_\<close> and \<^verbatim>\<open>Where\<close> has the type
  \<^verbatim>\<open>string | number | null\<close>. The code reads a number operator only through
  \<^verbatim>\<open>in\<close>, property access and string concatenation, all of which render it as
  \<^verbatim>\<open>String(n)\<close> first, so a number operator is carried as that rendering.
\<close>

datatype operator = OpString string | OpNumber string | OpNull

fun operator_key :: "operator \<Rightarrow> string" where
  "operator_key (OpString s) = s"
| "operator_key (OpNumber k) = k"
| "operator_key OpNull = ''null''"

subsection \<open>Filters and the query object\<close>

datatype fieldReference = FieldReference (fieldPath: string)

datatype filter =
    FieldFilter fieldReference member wire_value
  | UnaryFilter fieldReference member
  | CompositeFilter string "filter list"

datatype collectionSelector = CollectionSelector (collectionId: string) (allDescendants: bool)

datatype order = Order (direction: string) (order_field: fieldReference)

datatype cursor = Cursor (cursor_values: "wire_value list") (before: bool)

record query =
  q_select :: "fieldReference list option"
  q_from :: "collectionSelector list option"
  q_where :: "filter option"
  q_orderBy :: "order list option"
  q_startAt :: "cursor option"
  q_endAt :: "cursor option"
  q_offset :: "jsnum option"
  q_limit :: "jsnum option"

datatype from_arg = FromString string | FromList "string list"

text \<open>The constructor: a blank \<^verbatim>\<open>from\<close> leaves the field unset.\<close>

definition new_Query :: "from_arg \<Rightarrow> bool \<Rightarrow> query" where
  "new_Query from_a isCollectionGroup =
     \<lparr> q_select = None,
       q_from =
         (case from_a of
            FromString s \<Rightarrow>
              if s = [] then None else Some [CollectionSelector s isCollectionGroup]
          | FromList ids \<Rightarrow> Some (map (\<lambda>i. CollectionSelector i isCollectionGroup) ids)),
       q_where = None,
       q_orderBy = None,
       q_startAt = None,
       q_endAt = None,
       q_offset = None,
       q_limit = None \<rparr>"

subsection \<open>Field references\<close>

text \<open>
  \<^verbatim>\<open>fieldRef_\<close> of \<^verbatim>\<open>Query\<close> and of \<^verbatim>\<open>AggregateQuery\<close> (the same body):
  \<^verbatim>\<open>f.replace('`', '\\`')\<close> has a string pattern, so it replaces the first backtick.
\<close>

definition quote_segment :: "string \<Rightarrow> string" where
  "quote_segment f = backtick # replace_first [backtick] [backslash, backtick] f @ [backtick]"

definition fieldRef :: "string \<Rightarrow> fieldReference" where
  "fieldRef field_n = FieldReference (join ''.'' (map quote_segment (split_char (CHR ''.'') field_n)))"

text \<open>
  The quoting of a field name in \<^verbatim>\<open>WriteBatch\<close> and \<^verbatim>\<open>Transaction\<close>:
  \<^verbatim>\<open>field.replace(/`/g, '\\`')\<close> between backticks, the pattern global.
\<close>

definition quote_field :: "string \<Rightarrow> string" where
  "quote_field f = backtick # replace_all_char backtick [backslash, backtick] f @ [backtick]"

text \<open>
  The body of a quoted segment is escaped when every backtick in it follows a
  backslash that escapes it.
\<close>

fun escaped :: "string \<Rightarrow> bool" where
  "escaped [] = True"
| "escaped [c] = (c \<noteq> backtick)"
| "escaped (c # d # cs) =
     (if c = backslash \<and> d = backtick then escaped cs
      else c \<noteq> backtick \<and> escaped (d # cs))"

subsection \<open>Building a filter\<close>

definition apostrophe :: char where
  "apostrophe = CHR 0x27"

definition not_within :: "string \<Rightarrow> (string \<times> string) list \<Rightarrow> error" where
  "not_within val obj =
     Error (''Operator '' @ [apostrophe] @ val @ [apostrophe] @ '' not within ''
            @ join '','' (map fst obj))"

definition validateFieldFilter :: "string \<Rightarrow> error + bool" where
  "validateFieldFilter val =
     (if \<not> js_in val FieldFilterOps then Inl (not_within val FieldFilterOps) else Inr True)"

definition validateUnaryFilter :: "string \<Rightarrow> error + bool" where
  "validateUnaryFilter val =
     (if \<not> js_in val UnaryFilterOps then Inl (not_within val UnaryFilterOps) else Inr True)"

text \<open>
  \<^verbatim>\<open>Document.wrapValue\<close> is not among the sources; the functions that call it take it
  as the parameter \<open>wrap\<close>.
\<close>

definition fieldFilter ::
  "(native \<Rightarrow> wire_value) \<Rightarrow> string \<Rightarrow> string \<Rightarrow> native \<Rightarrow> error + filter" where
  "fieldFilter wrap field_n op_key val =
     (case validateFieldFilter op_key of
        Inl e \<Rightarrow> Inl e
      | Inr _ \<Rightarrow> Inr (FieldFilter (fieldRef field_n) (js_get FieldFilterOps op_key) (wrap val)))"

definition unaryFilter :: "string \<Rightarrow> string \<Rightarrow> error + filter" where
  "unaryFilter op_key field_n =
     (case validateUnaryFilter op_key of
        Inl e \<Rightarrow> Inl e
      | Inr _ \<Rightarrow> Inr (UnaryFilter (fieldRef field_n) (js_get UnaryFilterOps op_key)))"

text \<open>
  \<^verbatim>\<open>filter_\<close>: a string operator is lower-cased and loses its first underscore; any
  other operator becomes \<^verbatim>\<open>'null'\<close> for a null or undefined value and \<^verbatim>\<open>'nan'\<close> for
  \<open>NaN\<close>, and is left as it is otherwise.
\<close>

definition resolve_operator :: "operator \<Rightarrow> native \<Rightarrow> operator" where
  "resolve_operator operator_a val =
     (case operator_a of
        OpString s \<Rightarrow> OpString (replace_first ''_'' [] (toLowerCase s))
      | _ \<Rightarrow>
          if is_nullish val then OpString ''null''
          else if isNumberNaN val then OpString ''nan''
          else operator_a)"

definition Query_filter ::
  "(native \<Rightarrow> wire_value) \<Rightarrow> string \<Rightarrow> operator \<Rightarrow> native \<Rightarrow> error + filter" where
  "Query_filter wrap field_n operator_a val =
     (let k = operator_key (resolve_operator operator_a val) in
      if js_in k FieldFilterOps then fieldFilter wrap field_n k val
      else if js_in k UnaryFilterOps then unaryFilter k field_n
      else Inl (Error (''Invalid Operator given: '' @ k)))"

text \<open>\<^verbatim>\<open>Query.createFilter\<close>: \<^verbatim>\<open>filter_\<close> of a temporary query.\<close>

definition createFilter ::
  "(native \<Rightarrow> wire_value) \<Rightarrow> string \<Rightarrow> operator \<Rightarrow> native \<Rightarrow> error + filter" where
  "createFilter wrap field_n operator_a val = Query_filter wrap field_n operator_a val"

text \<open>Whether a filter has a \<^verbatim>\<open>compositeFilter\<close>.\<close>

fun is_composite :: "filter \<Rightarrow> bool" where
  "is_composite (CompositeFilter op fs) = True"
| "is_composite _ = False"

subsection \<open>Where and WhereOr\<close>

text \<open>
  A method that mutates the query returns the error it threw, if any, and the query as
  it then is. \<^verbatim>\<open>Where\<close> wraps a root that has no \<^verbatim>\<open>compositeFilter\<close> before it
  evaluates \<^verbatim>\<open>filter_\<close>, so the wrapping stays when \<^verbatim>\<open>filter_\<close> throws.
\<close>

definition Query_Where ::
  "(native \<Rightarrow> wire_value) \<Rightarrow> string \<Rightarrow> operator \<Rightarrow> native \<Rightarrow> query \<Rightarrow> error option \<times> query" where
  "Query_Where wrap field_n operator_a val q =
     (case q_where q of
        Some w \<Rightarrow>
          (let (op, fs) = (case w of CompositeFilter op fs \<Rightarrow> (op, fs) | _ \<Rightarrow> (''AND'', [w]));
               q1 = q\<lparr>q_where := Some (CompositeFilter op fs)\<rparr>
           in case Query_filter wrap field_n operator_a val of
                Inl e \<Rightarrow> (Some e, q1)
              | Inr f \<Rightarrow> (None, q1\<lparr>q_where := Some (CompositeFilter op (fs @ [f]))\<rparr>))
      | None \<Rightarrow>
          (case Query_filter wrap field_n operator_a val of
             Inl e \<Rightarrow> (Some e, q)
           | Inr f \<Rightarrow> (None, q\<lparr>q_where := Some f\<rparr>)))"

definition Query_WhereOr :: "filter list \<Rightarrow> query \<Rightarrow> error option \<times> query" where
  "Query_WhereOr filters q =
     (if length filters < 2 then (Some (Error ''OR filter requires at least 2 filters''), q)
      else
        (let orFilter = CompositeFilter ''OR'' filters in
         case q_where q of
           Some w \<Rightarrow>
             (case w of
                CompositeFilter op fs \<Rightarrow>
                  if op \<noteq> ''AND''
                  then (None, q\<lparr>q_where := Some (CompositeFilter ''AND'' [w, orFilter])\<rparr>)
                  else (None, q\<lparr>q_where := Some (CompositeFilter op (fs @ [orFilter]))\<rparr>)
              | _ \<Rightarrow> (None, q\<lparr>q_where := Some (CompositeFilter ''AND'' [w, orFilter])\<rparr>))
         | None \<Rightarrow> (None, q\<lparr>q_where := Some orFilter\<rparr>)))"

text \<open>A chain of calls \<^verbatim>\<open>q.A(...).B(...)\<close>: a throw ends the chain.\<close>

definition and_then ::
  "error option \<times> 's \<Rightarrow> ('s \<Rightarrow> error option \<times> 's) \<Rightarrow> error option \<times> 's" where
  "and_then r f = (case r of (None, s) \<Rightarrow> f s | (Some e, s) \<Rightarrow> (Some e, s))"

section \<open>The transport\<close>

text \<open>
  Modelled from the spec: the declarations of the namespace \<^verbatim>\<open>FirestoreAPI\<close> are not
  among the sources. A write, a field transform, a request payload and a response hold
  the fields that the wire shapes of the spec (section 6) list and that the sources read
  and write. The classes \<^verbatim>\<open>Request\<close> and \<^verbatim>\<open>Util_\<close> and the host's
  \<^verbatim>\<open>Utilities\<close> are not among the sources either; what the code calls of them is a
  parameter of the function that calls it.
\<close>

datatype transform_kind =
    SetToServerValue string
  | Increment wire_value
  | AppendMissingElements "wire_value list"
  | RemoveAllFromArray "wire_value list"

datatype fieldTransform = FieldTransform (ft_fieldPath: string) (ft_kind: transform_kind)

datatype write_op =
    Update string "(string \<times> wire_value) list"
  | Delete string
  | Transform string "fieldTransform list"

record Write =
  w_op :: write_op
  w_updateMask :: "string list option"
  w_currentDocument :: "bool option"

datatype transactionOptions = ReadOnly "string option" | ReadWrite "string option"

datatype payload =
    BatchWriteRequest "Write list"
  | BeginTransactionRequest transactionOptions
  | CommitRequest "Write list" "string option"
  | RollbackRequest "string option"

datatype writeResult = WriteResult (updateTime: "string option")

record status =
  st_code :: "int option"
  st_message :: "string option"

record response =
  r_transaction :: "string option"
  r_writeResults :: "writeResult list option"
  r_status :: "status list option"

text \<open>
  \<^verbatim>\<open>new Request(url, authToken).post('', payload)\<close>: the call returns the parsed
  response or throws, and changes the world \<open>'w\<close> outside the program.
\<close>

type_synonym 'w post = "string \<Rightarrow> string \<Rightarrow> payload \<Rightarrow> 'w \<Rightarrow> (error + response) \<times> 'w"

text \<open>\<^verbatim>\<open>s.replace(/\/$/, '')\<close> and \<^verbatim>\<open>s.replace(/^\//, '')\<close>.\<close>

definition strip_trailing_slash :: "string \<Rightarrow> string" where
  "strip_trailing_slash s = (if s \<noteq> [] \<and> last s = CHR ''/'' then butlast s else s)"

definition strip_leading_slash :: "string \<Rightarrow> string" where
  "strip_leading_slash s = (case s of [] \<Rightarrow> [] | c # cs \<Rightarrow> if c = CHR ''/'' then cs else s)"

section \<open>WriteBatch\<close>

record writeBatch =
  wb_writes :: "Write list"
  wb_baseUrl :: string
  wb_basePath :: string
  wb_authToken :: string

definition new_WriteBatch :: "string \<Rightarrow> string \<Rightarrow> string \<Rightarrow> writeBatch" where
  "new_WriteBatch baseUrl basePath authToken =
     \<lparr> wb_writes = [], wb_baseUrl = baseUrl, wb_basePath = basePath,
       wb_authToken = authToken \<rparr>"

text \<open>
  \<^verbatim>\<open>getFullDocumentPath\<close>; \<^verbatim>\<open>Util_.cleanDocumentPath\<close> is the parameter \<open>clean\<close>.
\<close>

definition WriteBatch_getFullDocumentPath ::
  "(string \<Rightarrow> string) \<Rightarrow> writeBatch \<Rightarrow> string \<Rightarrow> string" where
  "WriteBatch_getFullDocumentPath clean b path =
     strip_trailing_slash (wb_basePath b) @ ''/'' @ strip_leading_slash (clean path)"

definition WriteBatch_delete ::
  "(string \<Rightarrow> string) \<Rightarrow> string \<Rightarrow> writeBatch \<Rightarrow> writeBatch" where
  "WriteBatch_delete clean path b =
     b\<lparr>wb_writes := wb_writes b @
        [\<lparr> w_op = Delete (WriteBatch_getFullDocumentPath clean b path),
            w_updateMask = None, w_currentDocument = None \<rparr>]\<rparr>"

text \<open>\<^verbatim>\<open>typeof v === 'object'\<close>.\<close>

fun typeof_object :: "native \<Rightarrow> bool" where
  "typeof_object JNull = True"
| "typeof_object (JDate _) = True"
| "typeof_object (JArray _) = True"
| "typeof_object (JObject _) = True"
| "typeof_object _ = False"

text \<open>
  \<^verbatim>\<open>Array.isArray(p) ? p.map(Document.wrapValue) : [Document.wrapValue(p)]\<close>.
\<close>

fun wrap_values :: "(native \<Rightarrow> wire_value) \<Rightarrow> native \<Rightarrow> wire_value list" where
  "wrap_values wrap (JArray xs) = map wrap xs"
| "wrap_values wrap p = [wrap p]"

text \<open>
  One turn of the loop of \<^verbatim>\<open>transform\<close> over \<^verbatim>\<open>Object.entries(transforms)\<close>: the
  field transform it pushes, if any. No branch throws.
\<close>

definition transform_entry ::
  "(native \<Rightarrow> wire_value) \<Rightarrow> string \<times> native \<Rightarrow> fieldTransform option" where
  "transform_entry wrap entry =
     (case entry of (field_n, t) \<Rightarrow>
        if t = JString ''serverTimestamp''
        then Some (FieldTransform (quote_field field_n) (SetToServerValue ''REQUEST_TIME''))
        else if truthy t \<and> typeof_object t then
          (if get_prop t ''increment'' \<noteq> JUndefined
           then Some (FieldTransform (quote_field field_n)
                        (Increment (wrap (get_prop t ''increment''))))
           else if truthy (get_prop t ''arrayUnion'')
           then Some (FieldTransform (quote_field field_n)
                        (AppendMissingElements (wrap_values wrap (get_prop t ''arrayUnion''))))
           else if truthy (get_prop t ''arrayRemove'')
           then Some (FieldTransform (quote_field field_n)
                        (RemoveAllFromArray (wrap_values wrap (get_prop t ''arrayRemove''))))
           else None)
        else None)"

text \<open>
  \<^verbatim>\<open>transform\<close> returns \<^verbatim>\<open>this\<close> and has no \<^verbatim>\<open>throw\<close>; the error it raised, if
  any, is returned with the batch, as for the other methods.
\<close>

definition WriteBatch_transform ::
  "(native \<Rightarrow> wire_value) \<Rightarrow> (string \<Rightarrow> string) \<Rightarrow> string \<Rightarrow> (string \<times> native) list
     \<Rightarrow> writeBatch \<Rightarrow> error option \<times> writeBatch" where
  "WriteBatch_transform wrap clean path transforms b =
     (let fullPath = WriteBatch_getFullDocumentPath clean b path;
          fieldTransforms = List.map_filter (transform_entry wrap) transforms
      in if length fieldTransforms > 0
         then (None, b\<lparr>wb_writes := wb_writes b @
                 [\<lparr> w_op = Transform fullPath fieldTransforms,
                     w_updateMask = None, w_currentDocument = None \<rparr>]\<rparr>)
         else (None, b))"


text \<open>
  \<^verbatim>\<open>status.code && status.code !== 0\<close>, and the loop of \<^verbatim>\<open>commit\<close> over
  \<^verbatim>\<open>response.status\<close> from index \<open>i\<close>: the first status with a code that is neither
  absent nor zero, and its index.
\<close>

definition has_error_code :: "status \<Rightarrow> bool" where
  "has_error_code st = (case st_code st of None \<Rightarrow> False | Some c \<Rightarrow> c \<noteq> 0)"

fun first_failed :: "nat \<Rightarrow> status list \<Rightarrow> (nat \<times> status) option" where
  "first_failed i [] = None"
| "first_failed i (st # sts) =
     (if has_error_code st then Some (i, st) else first_failed (Suc i) sts)"

text \<open>\<^verbatim>\<open>status.message || 'Unknown error'\<close>.\<close>

definition message_or_unknown :: "status \<Rightarrow> string" where
  "message_or_unknown st =
     (case st_message st of
        None \<Rightarrow> ''Unknown error''
      | Some m \<Rightarrow> if m = [] then ''Unknown error'' else m)"

definition batch_failed :: "nat \<Rightarrow> status \<Rightarrow> error" where
  "batch_failed i st =
     Error (''Batch write operation '' @ show_nat i @ '' failed: '' @ message_or_unknown st)"

text \<open>\<^verbatim>\<open>response.writeResults || []\<close>.\<close>

definition results_or_empty :: "response \<Rightarrow> writeResult list" where
  "results_or_empty resp = (case r_writeResults resp of None \<Rightarrow> [] | Some rs \<Rightarrow> rs)"

definition batchWriteUrl :: "writeBatch \<Rightarrow> string" where
  "batchWriteUrl b = strip_trailing_slash (wb_baseUrl b) @ '':batchWrite''"

definition WriteBatch_commit ::
  "'w post \<Rightarrow> writeBatch \<Rightarrow> 'w \<Rightarrow> (error + writeResult list) \<times> writeBatch \<times> 'w" where
  "WriteBatch_commit post b w =
     (if length (wb_writes b) = 0 then (Inl (Error ''Cannot commit empty batch''), b, w)
      else
        (case post (batchWriteUrl b) (wb_authToken b) (BatchWriteRequest (wb_writes b)) w of
           (Inl e, w') \<Rightarrow> (Inl e, b, w')
         | (Inr resp, w') \<Rightarrow>
             (let b' = b\<lparr>wb_writes := []\<rparr> in
              case r_status resp of
                None \<Rightarrow> (Inr (results_or_empty resp), b', w')
              | Some sts \<Rightarrow>
                  (case first_failed 0 sts of
                     Some (i, st) \<Rightarrow> (Inl (batch_failed i st), b', w')
                   | None \<Rightarrow> (Inr (results_or_empty resp), b', w')))))"

definition WriteBatch_size :: "writeBatch \<Rightarrow> nat" where
  "WriteBatch_size b = length (wb_writes b)"

section \<open>Transaction\<close>

record transaction =
  tx_transactionId :: "string option"
  tx_writes :: "Write list"
  tx_baseUrl :: string
  tx_basePath :: string
  tx_authToken :: string
  tx_isActive :: bool

definition new_Transaction :: "string \<Rightarrow> string \<Rightarrow> string \<Rightarrow> transaction" where
  "new_Transaction baseUrl basePath authToken =
     \<lparr> tx_transactionId = None, tx_writes = [], tx_baseUrl = baseUrl,
       tx_basePath = basePath, tx_authToken = authToken, tx_isActive = False \<rparr>"

text \<open>
  What the host provides: the transport, \<^verbatim>\<open>Utilities.sleep\<close>, and
  \<^verbatim>\<open>Utilities.base64EncodeWebSafe(Utilities.base64Decode(s))\<close>, which is \<open>None\<close> when
  either call throws.
\<close>

record 'w host =
  h_post :: "'w post"
  h_recode :: "string \<Rightarrow> string option"
  h_sleep :: "nat \<Rightarrow> 'w \<Rightarrow> 'w"

text \<open>\<^verbatim>\<open>s.replace(/\s+/g, '')\<close>, on the ASCII white space.\<close>

definition is_space :: "char \<Rightarrow> bool" where
  "is_space c = (c \<in> set [CHR '' '', CHR 0x09, CHR 0x0A, CHR 0x0B, CHR 0x0C, CHR 0x0D])"

definition remove_spaces :: "string \<Rightarrow> string" where
  "remove_spaces s = filter (\<lambda>c. \<not> is_space c) s"

text \<open>
  The transaction id of \<^verbatim>\<open>begin\<close>: the token without white space, recoded by the
  host; when the host throws, the token with \<open>+\<close> and \<open>/\<close> replaced and \<open>=\<close> removed.
\<close>

definition url_safe :: "string \<Rightarrow> string" where
  "url_safe t =
     filter (\<lambda>c. c \<noteq> CHR ''='')
       (map (\<lambda>c. if c = CHR ''+'' then CHR ''-'' else if c = CHR ''/'' then CHR ''_'' else c)
          (remove_spaces t))"

definition normalize_id :: "(string \<Rightarrow> string option) \<Rightarrow> string \<Rightarrow> string" where
  "normalize_id recode t =
     (case recode (remove_spaces t) of Some i \<Rightarrow> i | None \<Rightarrow> url_safe t)"

text \<open>The three requests of a transaction, as \<^verbatim>\<open>begin\<close>, \<^verbatim>\<open>commit\<close> and \<^verbatim>\<open>rollback\<close> post them.\<close>

definition begin_rpc ::
  "'w host \<Rightarrow> transactionOptions option \<Rightarrow> transaction \<Rightarrow> 'w \<Rightarrow> (error + response) \<times> 'w" where
  "begin_rpc host options tx w =
     h_post host
       (replace_first ''/documents/'' ''/documents:beginTransaction/'' (tx_baseUrl tx))
       (tx_authToken tx)
       (BeginTransactionRequest (case options of None \<Rightarrow> ReadWrite None | Some opts \<Rightarrow> opts))
       w"

definition commit_rpc :: "'w host \<Rightarrow> transaction \<Rightarrow> 'w \<Rightarrow> (error + response) \<times> 'w" where
  "commit_rpc host tx w =
     h_post host
       (replace_first ''/documents/'' ''/documents:commit/'' (tx_baseUrl tx))
       (tx_authToken tx)
       (CommitRequest (tx_writes tx) (tx_transactionId tx))
       w"

definition rollback_rpc :: "'w host \<Rightarrow> transaction \<Rightarrow> 'w \<Rightarrow> (error + response) \<times> 'w" where
  "rollback_rpc host tx w =
     h_post host
       (replace_first ''/documents/'' ''/documents:rollback/'' (tx_baseUrl tx))
       (tx_authToken tx)
       (RollbackRequest (tx_transactionId tx))
       w"

definition Transaction_begin ::
  "'w host \<Rightarrow> transactionOptions option \<Rightarrow> transaction \<Rightarrow> 'w
     \<Rightarrow> (error + unit) \<times> transaction \<times> 'w" where
  "Transaction_begin host options tx w =
     (if tx_isActive tx then (Inl (Error ''Transaction is already active''), tx, w)
      else
        (case begin_rpc host options tx w of
           (Inl e, w') \<Rightarrow> (Inl e, tx, w')
         | (Inr resp, w') \<Rightarrow>
             (let tx1 =
                (case r_transaction resp of
                   None \<Rightarrow> tx
                 | Some t \<Rightarrow>
                     if t = [] then tx
                     else tx\<lparr>tx_transactionId := Some (normalize_id (h_recode host) t)\<rparr>)
              in (Inr (), tx1\<lparr>tx_isActive := True\<rparr>, w'))))"

text \<open>\<^verbatim>\<open>getFullDocumentPath\<close>; \<^verbatim>\<open>Util_.cleanPath\<close> is the parameter \<open>clean\<close>.\<close>

definition Transaction_getFullDocumentPath ::
  "(string \<Rightarrow> string) \<Rightarrow> transaction \<Rightarrow> string \<Rightarrow> string" where
  "Transaction_getFullDocumentPath clean tx path =
     strip_trailing_slash (tx_basePath tx) @ ''/'' @ strip_leading_slash (clean path)"

definition Transaction_delete ::
  "(string \<Rightarrow> string) \<Rightarrow> string \<Rightarrow> transaction \<Rightarrow> error option \<times> transaction" where
  "Transaction_delete clean path tx =
     (if \<not> tx_isActive tx then (Some (Error ''Transaction is not active''), tx)
      else (None, tx\<lparr>tx_writes := tx_writes tx @
              [\<lparr> w_op = Delete (Transaction_getFullDocumentPath clean tx path),
                  w_updateMask = None, w_currentDocument = None \<rparr>]\<rparr>))"

text \<open>
  \<^verbatim>\<open>commit\<close> and \<^verbatim>\<open>rollback\<close>: the three assignments that reset the transaction
  stand after the \<^verbatim>\<open>post\<close>, so they are not reached when the \<^verbatim>\<open>post\<close> throws.
\<close>

definition Transaction_commit ::
  "'w host \<Rightarrow> transaction \<Rightarrow> 'w \<Rightarrow> (error + writeResult list) \<times> transaction \<times> 'w" where
  "Transaction_commit host tx w =
     (if \<not> tx_isActive tx then (Inl (Error ''Transaction is not active''), tx, w)
      else
        (case commit_rpc host tx w of
           (Inl e, w') \<Rightarrow> (Inl e, tx, w')
         | (Inr resp, w') \<Rightarrow>
             (Inr (results_or_empty resp),
              tx\<lparr>tx_isActive := False, tx_writes := [], tx_transactionId := None\<rparr>,
              w')))"

definition Transaction_rollback ::
  "'w host \<Rightarrow> transaction \<Rightarrow> 'w \<Rightarrow> (error + response) \<times> transaction \<times> 'w" where
  "Transaction_rollback host tx w =
     (if \<not> tx_isActive tx then (Inl (Error ''Transaction is not active''), tx, w)
      else
        (case rollback_rpc host tx w of
           (Inl e, w') \<Rightarrow> (Inl e, tx, w')
         | (Inr resp, w') \<Rightarrow>
             (Inr resp,
              tx\<lparr>tx_isActive := False, tx_writes := [], tx_transactionId := None\<rparr>,
              w')))"

definition isTransactionActive :: "transaction \<Rightarrow> bool" where
  "isTransactionActive tx = tx_isActive tx"

definition getTransactionId :: "transaction \<Rightarrow> string option" where
  "getTransactionId tx = tx_transactionId tx"

section \<open>Firestore.runTransaction\<close>

record firestore =
  fs_basePath :: string
  fs_baseUrl :: string
  fs_authToken :: string

definition Firestore_transaction :: "firestore \<Rightarrow> transaction" where
  "Firestore_transaction fs = new_Transaction (fs_baseUrl fs) (fs_basePath fs) (fs_authToken fs)"

definition isRetryableError :: "error \<Rightarrow> bool" where
  "isRetryableError e =
     (let m = toLowerCase (message e) in
      str_includes m ''aborted'' \<or>
      str_includes m ''conflict'' \<or>
      str_includes m ''contention'' \<or>
      str_includes m ''too much contention'' \<or>
      str_includes m ''deadline exceeded'')"

text \<open>\<^verbatim>\<open>Math.min(1000 * Math.pow(2, attempt), 10000)\<close>.\<close>

definition backoff :: "nat \<Rightarrow> nat" where
  "backoff attempt = min (1000 * 2 ^ attempt) 10000"

text \<open>
  The user's function is handed the transaction, may call its methods and the
  transport, and returns its result or throws.
\<close>

type_synonym ('a, 'w) updateFunction =
  "transaction \<Rightarrow> 'w \<Rightarrow> (error + 'a) \<times> transaction \<times> 'w"

text \<open>The \<^verbatim>\<open>try\<close> block of one attempt: begin, the user's function, commit.\<close>

definition try_block ::
  "'w host \<Rightarrow> ('a, 'w) updateFunction \<Rightarrow> transactionOptions option \<Rightarrow> transaction \<Rightarrow> 'w
     \<Rightarrow> (error + 'a) \<times> transaction \<times> 'w" where
  "try_block host updateFunction options tx w =
     (case Transaction_begin host options tx w of
        (Inl e, tx1, w1) \<Rightarrow> (Inl e, tx1, w1)
      | (Inr _, tx1, w1) \<Rightarrow>
          (case updateFunction tx1 w1 of
             (Inl e, tx2, w2) \<Rightarrow> (Inl e, tx2, w2)
           | (Inr result, tx2, w2) \<Rightarrow>
               (case Transaction_commit host tx2 w2 of
                  (Inl e, tx3, w3) \<Rightarrow> (Inl e, tx3, w3)
                | (Inr _, tx3, w3) \<Rightarrow> (Inr result, tx3, w3))))"

text \<open>
  The start of the \<^verbatim>\<open>catch\<close> block: a transaction that is still active is rolled
  back, and an error of the rollback is dropped.
\<close>

definition rollback_if_active :: "'w host \<Rightarrow> transaction \<Rightarrow> 'w \<Rightarrow> 'w" where
  "rollback_if_active host tx w =
     (if isTransactionActive tx then snd (snd (Transaction_rollback host tx w)) else w)"

text \<open>
  One turn of the loop up to the decision to retry: a fresh transaction, the
  \<^verbatim>\<open>try\<close> block, and the rollback after an error.
\<close>

definition attempt_once ::
  "'w host \<Rightarrow> firestore \<Rightarrow> ('a, 'w) updateFunction \<Rightarrow> transactionOptions option \<Rightarrow> 'w
     \<Rightarrow> (error + 'a) \<times> 'w" where
  "attempt_once host fs updateFunction options w =
     (case try_block host updateFunction options (Firestore_transaction fs) w of
        (Inr result, tx, w1) \<Rightarrow> (Inr result, w1)
      | (Inl e, tx, w1) \<Rightarrow> (Inl e, rollback_if_active host tx w1))"

text \<open>
  The history of a call of \<^verbatim>\<open>runTransaction\<close>: each turn of the loop with its index,
  the transaction it constructed and the outcome of its \<^verbatim>\<open>try\<close> block, and each
  \<^verbatim>\<open>Utilities.sleep\<close> with its delay.
\<close>

datatype 'a event = Attempt nat transaction "error + 'a" | Sleep nat

function runTransaction_loop ::
  "'w host \<Rightarrow> firestore \<Rightarrow> ('a, 'w) updateFunction \<Rightarrow> transactionOptions option \<Rightarrow> int
     \<Rightarrow> nat \<Rightarrow> error option \<Rightarrow> 'w \<Rightarrow> (error + 'a) \<times> 'a event list \<times> 'w" where
  "runTransaction_loop host fs updateFunction options maxRetries attempt lastError w =
     (if int attempt \<le> maxRetries then
        (case attempt_once host fs updateFunction options w of
           (Inr result, w1) \<Rightarrow>
             (Inr result, [Attempt attempt (Firestore_transaction fs) (Inr result)], w1)
         | (Inl e, w1) \<Rightarrow>
             if isRetryableError e \<and> int attempt < maxRetries then
               (case runTransaction_loop host fs updateFunction options maxRetries
                       (Suc attempt) (Some e) (h_sleep host (backoff attempt) w1) of
                  (r, evs, w2) \<Rightarrow>
                    (r, Attempt attempt (Firestore_transaction fs) (Inl e)
                        # Sleep (backoff attempt) # evs, w2))
             else (Inl e, [Attempt attempt (Firestore_transaction fs) (Inl e)], w1))
      else
        (Inl (case lastError of
                Some e \<Rightarrow> e
              | None \<Rightarrow> Error ''Transaction failed after maximum retries''),
         [], w))"
  by pat_completeness auto
termination
  by (relation "measure (\<lambda>(host, fs, updateFunction, options, maxRetries, attempt, lastError, w).
        nat (maxRetries + 1 - int attempt))") auto

declare runTransaction_loop.simps [simp del]

text \<open>\<^verbatim>\<open>runTransaction(updateFunction, options, maxRetries = 5)\<close>.\<close>

definition runTransaction ::
  "'w host \<Rightarrow> firestore \<Rightarrow> ('a, 'w) updateFunction \<Rightarrow> transactionOptions option \<Rightarrow> int option
     \<Rightarrow> 'w \<Rightarrow> (error + 'a) \<times> 'a event list \<times> 'w" where
  "runTransaction host fs updateFunction options maxRetries w =
     runTransaction_loop host fs updateFunction options
       (case maxRetries of None \<Rightarrow> 5 | Some n \<Rightarrow> n) 0 None w"

section \<open>The value codec\<close>

text \<open>
  Modelled from the spec: the class \<^verbatim>\<open>Document\<close> with \<^verbatim>\<open>wrapValue\<close> and
  \<^verbatim>\<open>unwrapValue\<close>, and the helpers of \<^verbatim>\<open>Util_\<close> they use, are not among the
  sources. The spec (4.1) gives \<open>wrap\<close> case by case: null and absent to null, boolean
  to boolean, an integer-valued number to an integer carried as its decimal string, any
  other number to a double, a string that matches the reference-path pattern to a
  reference and any other string to a string, a date to a timestamp, an object of the
  shape \<^verbatim>\<open>{latitude, longitude}\<close> to a geopoint, an array to the array of its wrapped
  elements, a plain object to the map of its wrapped entries. The reference-path pattern
  is the parameter \<open>isPath\<close>.
\<close>

definition is_int :: "rat \<Rightarrow> bool" where
  "is_int r = (r = of_int \<lfloor>r\<rfloor>)"

text \<open>
  Modelled from the spec: an object has the shape \<^verbatim>\<open>{latitude, longitude}\<close> when these
  are its two properties, in either order, and both are numbers.
\<close>

fun geo_point :: "(string \<times> native) list \<Rightarrow> (jsnum \<times> jsnum) option" where
  "geo_point [(k1, JNumber a), (k2, JNumber b)] =
     (if k1 = ''latitude'' \<and> k2 = ''longitude'' then Some (a, b)
      else if k1 = ''longitude'' \<and> k2 = ''latitude'' then Some (b, a)
      else None)"
| "geo_point kvs = None"

text \<open>Modelled from the spec: \<^verbatim>\<open>Document.wrapValue\<close>, as described above.\<close>

primrec wrapValue :: "(string \<Rightarrow> bool) \<Rightarrow> native \<Rightarrow> wire_value" where
  "wrapValue isPath JUndefined = NullValue"
| "wrapValue isPath JNull = NullValue"
| "wrapValue isPath (JBool b) = BooleanValue b"
| "wrapValue isPath (JNumber x) =
     (case x of
        NaN \<Rightarrow> DoubleValue NaN
      | Finite r \<Rightarrow> if is_int r then IntegerValue (show_int \<lfloor>r\<rfloor>) else DoubleValue (Finite r))"
| "wrapValue isPath (JString s) = (if isPath s then ReferenceValue s else StringValue s)"
| "wrapValue isPath (JDate ms) = TimestampValue ms"
| "wrapValue isPath (JArray xs) = ArrayValue (map (wrapValue isPath) xs)"
| "wrapValue isPath (JObject kvs) =
     (case geo_point kvs of
        Some (lat, lng) \<Rightarrow> GeoPointValue lat lng
      | None \<Rightarrow> MapValue (map (map_prod id (wrapValue isPath)) kvs))"

text \<open>
  Modelled from the spec: the parsing of an integer string back to a number, digit by
  digit, with a leading minus sign.
\<close>

definition digit_value :: "char \<Rightarrow> nat" where
  "digit_value c = of_char c - 48"

definition parse_nat :: "string \<Rightarrow> nat" where
  "parse_nat s = foldl (\<lambda>acc c. acc * 10 + digit_value c) 0 s"

definition parse_int :: "string \<Rightarrow> int" where
  "parse_int s =
     (case s of
        [] \<Rightarrow> 0
      | c # cs \<Rightarrow> if c = CHR ''-'' then - int (parse_nat cs) else int (parse_nat s))"

text \<open>
  Modelled from the spec: \<^verbatim>\<open>Document.unwrapValue\<close>, the inverse of \<open>wrap\<close>, parsing
  integer strings back to numbers and recursing through maps and arrays. A reference
  comes back as its path string and a geopoint as an object of its latitude and
  longitude; bytes, which \<open>wrap\<close> never produces, come back as their string.
\<close>

primrec unwrapValue :: "wire_value \<Rightarrow> native" where
  "unwrapValue NullValue = JNull"
| "unwrapValue (BooleanValue b) = JBool b"
| "unwrapValue (IntegerValue s) = JNumber (Finite (of_int (parse_int s)))"
| "unwrapValue (DoubleValue x) = JNumber x"
| "unwrapValue (TimestampValue ms) = JDate ms"
| "unwrapValue (StringValue s) = JString s"
| "unwrapValue (BytesValue s) = JString s"
| "unwrapValue (ReferenceValue s) = JString s"
| "unwrapValue (GeoPointValue lat lng) =
     JObject [(''latitude'', JNumber lat), (''longitude'', JNumber lng)]"
| "unwrapValue (ArrayValue vs) = JArray (map unwrapValue vs)"
| "unwrapValue (MapValue kvs) = JObject (map (map_prod id unwrapValue) kvs)"

text \<open>
  Deep equality of native values, as the claim uses it: arrays element by element,
  objects property by property whatever the order of their entries, and \<open>NaN\<close> equal
  to nothing.
\<close>

primrec deep_equal :: "native \<Rightarrow> native \<Rightarrow> bool" where
  "deep_equal JUndefined w = (w = JUndefined)"
| "deep_equal JNull w = (w = JNull)"
| "deep_equal (JBool b) w = (w = JBool b)"
| "deep_equal (JNumber x) w = (x \<noteq> NaN \<and> w = JNumber x)"
| "deep_equal (JString s) w = (w = JString s)"
| "deep_equal (JDate ms) w = (w = JDate ms)"
| "deep_equal (JArray xs) w =
     (case w of
        JArray ys \<Rightarrow> list_all2 (\<lambda>same y. same y) (map deep_equal xs) ys
      | _ \<Rightarrow> False)"
| "deep_equal (JObject kvs) w =
     (case w of
        JObject kws \<Rightarrow>
          length kvs = length kws \<and>
          list_all (\<lambda>(k, same). case map_of kws k of None \<Rightarrow> False | Some v \<Rightarrow> same v)
            (map (map_prod id deep_equal) kvs)
      | _ \<Rightarrow> False)"

text \<open>
  The representable values of the claim: null, booleans, strings, integers up to
  \<open>2^53\<close> in absolute value, non-integer numbers, dates, and arrays and objects of
  representable values, an object naming each property once. \<^verbatim>\<open>undefined\<close> and
  \<open>NaN\<close> are not representable.
\<close>

primrec representable :: "native \<Rightarrow> bool" where
  "representable JUndefined = False"
| "representable JNull = True"
| "representable (JBool b) = True"
| "representable (JNumber x) =
     (case x of NaN \<Rightarrow> False | Finite r \<Rightarrow> if is_int r then \<bar>r\<bar> \<le> 2 ^ 53 else True)"
| "representable (JString s) = True"
| "representable (JDate ms) = True"
| "representable (JArray xs) = list_all (\<lambda>ok. ok) (map representable xs)"
| "representable (JObject kvs) =
     (distinct (map fst kvs) \<and> list_all snd (map (map_prod id representable) kvs))"

section \<open>The retry policy, as the claim words it\<close>





section \<open>Sample inputs\<close>

text \<open>
  A transport that records each payload it is sent and answers every request with three
  statuses: the first without error, the second and the third with the codes 3 and 5.
\<close>

definition sample_response :: response where
  "sample_response =
     \<lparr> r_transaction = None, r_writeResults = None,
       r_status = Some [\<lparr> st_code = Some 0, st_message = None \<rparr>,
                        \<lparr> st_code = Some 3, st_message = Some ''boom'' \<rparr>,
                        \<lparr> st_code = Some 5, st_message = Some ''later'' \<rparr>] \<rparr>"

definition recording_post :: "payload list post" where
  "recording_post url tok p sent = (Inr sample_response, sent @ [p])"

definition sample_batch :: writeBatch where
  "sample_batch =
     WriteBatch_delete (\<lambda>p. p) ''c/e''
       (WriteBatch_delete (\<lambda>p. p) ''c/d''
          (new_WriteBatch ''https://host/v1/p/documents/'' ''p/documents/'' ''token''))"

text \<open>
  A host whose transport always throws, and an active transaction with one pending
  write.
\<close>

definition failing_host :: "unit host" where
  "failing_host =
     \<lparr> h_post = (\<lambda>url tok p w. (Inl (Error ''UNAVAILABLE''), w)),
       h_recode = (\<lambda>s. None),
       h_sleep = (\<lambda>d w. w) \<rparr>"

definition active_transaction :: transaction where
  "active_transaction =
     \<lparr> tx_transactionId = Some ''abc'',
       tx_writes = [\<lparr> w_op = Delete ''p/documents/c/d'', w_updateMask = None,
                       w_currentDocument = None \<rparr>],
       tx_baseUrl = ''https://host/v1/p/documents/'',
       tx_basePath = ''p/documents/'',
       tx_authToken = ''token'',
       tx_isActive = True \<rparr>"

text \<open>
  A host that answers every request with the transaction token \<open>abc\<close> and records, in
  a world of two lists, the payloads it was sent and the delays it slept.
\<close>

definition recording_host :: "(payload list \<times> nat list) host" where
  "recording_host =
     \<lparr> h_post = (\<lambda>url tok p (sent, slept).
                    (Inr \<lparr> r_transaction = Some ''abc'', r_writeResults = None,
                           r_status = None \<rparr>, (sent @ [p], slept))),
       h_recode = (\<lambda>s. None),
       h_sleep = (\<lambda>d (sent, slept). (sent, slept @ [d])) \<rparr>"





text \<open>
  A nested value: an integer, a non-integer number, an array, an object of the shape
  of a geopoint with its properties in the other order, a date and a reference path.
\<close>

definition sample_value :: native where
  "sample_value =
     JObject
       [(''n'', JNumber (Finite 42)),
        (''ratio'', JNumber (Finite (3 / 2))),
        (''xs'', JArray [JString ''a'', JNull, JBool True, JNumber (Finite (- 7))]),
        (''place'', JObject [(''longitude'', JNumber (Finite 31)),
                             (''latitude'', JNumber (Finite 29))]),
        (''at'', JDate 1700000000000),
        (''ref'', JString ''projects/p/databases/(default)/documents/c/d'')]"

section \<open>Properties\<close>

subsection \<open>Query: field references\<close>

lemma replace_all_head_not_backtick:
  "replace_all_char backtick [backslash, backtick] f \<noteq> backtick # r"
  by (cases f) (auto simp: replace_all_char_def backtick_def backslash_def)

lemma escaped_replace_all:
  "escaped (replace_all_char backtick [backslash, backtick] f)"
proof (induction f)
  case Nil
  show ?case by (simp add: replace_all_char_def)
next
  case (Cons c cs)
  let ?rest = "replace_all_char backtick [backslash, backtick] cs"
  show ?case
  proof (cases "c = backtick")
    case True
    then have "replace_all_char backtick [backslash, backtick] (c # cs) =
        backslash # backtick # ?rest"
      by (simp add: replace_all_char_def)
    with Cons show ?thesis by simp
  next
    case False
    then have eq: "replace_all_char backtick [backslash, backtick] (c # cs) = c # ?rest"
      by (simp add: replace_all_char_def)
    show ?thesis
    proof (cases ?rest)
      case Nil
      with eq False show ?thesis by simp
    next
      case (Cons d r)
      then have "d \<noteq> backtick"
        using replace_all_head_not_backtick [of cs r] by auto
      with eq False Cons Cons.IH show ?thesis by simp
    qed
  qed
qed

text \<open>
  C7. \<^verbatim>\<open>fieldRef_\<close> does not escape every backtick of a segment: of the segment
  \<^verbatim>\<open>a`b`c\<close> it escapes the first backtick and leaves the second bare, so the quoted
  text closes early, after \<^verbatim>\<open>a`b\<close>. The quoting of \<^verbatim>\<open>WriteBatch\<close> escapes both.
\<close>

theorem fieldRef_second_backtick_bare:
  "fieldRef ''a`b`c'' =
     FieldReference
       [backtick, CHR ''a'', backslash, backtick, CHR ''b'', backtick, CHR ''c'', backtick]
   \<and> \<not> escaped [CHR ''a'', backslash, backtick, CHR ''b'', backtick, CHR ''c'']
   \<and> quote_field ''a`b`c'' =
       [backtick, CHR ''a'', backslash, backtick, CHR ''b'', backslash, backtick, CHR ''c'',
        backtick]
   \<and> escaped [CHR ''a'', backslash, backtick, CHR ''b'', backslash, backtick, CHR ''c'']"
  by (simp add: fieldRef_def quote_segment_def quote_field_def replace_all_char_def
      startsWith_def backtick_def backslash_def)

subsection \<open>Query: building a filter\<close>

lemmas query_table_defs =
  js_in_def js_get_def FieldFilterOps_def UnaryFilterOps_def Object_prototype_keys_def

lemmas query_filter_defs =
  Query_filter_def resolve_operator_def fieldFilter_def unaryFilter_def
  validateFieldFilter_def validateUnaryFilter_def toLowerCase_def lower_char_def
  startsWith_def

lemma Query_filter_eq:
  "Query_filter wrap fld (OpString ''=='') v =
     Inr (FieldFilter (fieldRef fld) (Member ''EQUAL'') (wrap v))"
  by (simp add: query_filter_defs query_table_defs)

lemma Query_filter_gt:
  "Query_filter wrap fld (OpString ''>'') v =
     Inr (FieldFilter (fieldRef fld) (Member ''GREATER_THAN'') (wrap v))"
  by (simp add: query_filter_defs query_table_defs)

lemma Query_filter_null_string:
  "Query_filter wrap fld (OpString ''null'') v =
     Inr (UnaryFilter (fieldRef fld) (Member ''IS_NULL''))"
  by (simp add: query_filter_defs query_table_defs)

text \<open>
  With a number or \<^verbatim>\<open>null\<close> for an operator, a null or undefined value gives the
  unary filter \<open>IS_NULL\<close> and the value \<open>NaN\<close> gives \<open>IS_NAN\<close>; neither carries a
  value.
\<close>

lemma Query_filter_omitted_nullish:
  "is_nullish v \<Longrightarrow>
   Query_filter wrap fld OpNull v = Inr (UnaryFilter (fieldRef fld) (Member ''IS_NULL'')) \<and>
   Query_filter wrap fld (OpNumber k) v = Inr (UnaryFilter (fieldRef fld) (Member ''IS_NULL''))"
  by (simp add: query_filter_defs query_table_defs)

lemma Query_filter_omitted_nan:
  "Query_filter wrap fld OpNull (JNumber NaN) =
     Inr (UnaryFilter (fieldRef fld) (Member ''IS_NAN'')) \<and>
   Query_filter wrap fld (OpNumber k) (JNumber NaN) =
     Inr (UnaryFilter (fieldRef fld) (Member ''IS_NAN''))"
  by (simp add: query_filter_defs query_table_defs)

text \<open>A filter that \<^verbatim>\<open>filter_\<close> returns is a field filter or a unary filter.\<close>

lemma Query_filter_not_composite:
  "Query_filter wrap fld operator_a v = Inr f \<Longrightarrow> \<not> is_composite f"
  by (auto simp: Query_filter_def fieldFilter_def unaryFilter_def Let_def
      split: if_splits sum.splits)

text \<open>
  C6. With the operator \<^verbatim>\<open>null\<close> and the value \<open>5\<close>, which is neither null nor
  \<open>NaN\<close>, \<^verbatim>\<open>filter_\<close> throws nothing: \<^verbatim>\<open>null in UnaryFilterOps_\<close> reads the key
  \<^verbatim>\<open>'null'\<close>, and the unary filter \<open>IS_NULL\<close> comes back, the value dropped. The
  number operator \<open>5\<close> and the unknown string operator \<^verbatim>\<open>'bogus'\<close> with the same
  value are refused.
\<close>

theorem filter_null_operator_with_value:
  "Query_filter wrap ''x'' OpNull (JNumber (Finite 5)) =
     Inr (UnaryFilter (fieldRef ''x'') (Member ''IS_NULL''))
   \<and> Query_filter wrap ''x'' (OpNumber ''5'') (JNumber (Finite 5)) =
     Inl (Error ''Invalid Operator given: 5'')
   \<and> Query_filter wrap ''x'' (OpString ''bogus'') (JNumber (Finite 5)) =
     Inl (Error ''Invalid Operator given: bogus'')"
  by (simp add: query_filter_defs query_table_defs)

subsection \<open>Query: Where and WhereOr\<close>

text \<open>
  C4. Two \<^verbatim>\<open>Where\<close> calls on a fresh query give the root
  \<open>AND[fieldFilter(a, EQUAL, 1), fieldFilter(b, GREATER_THAN, 2)]\<close>, as the claim
  says. But after \<^verbatim>\<open>WhereOr([f1, f2])\<close> the root is an \<open>OR\<close> composite, which is not an
  \<open>AND\<close> composite, and \<^verbatim>\<open>Where\<close> does not wrap it: the new filter is appended to
  the \<open>OR\<close>, a third alternative instead of a condition on all results.
\<close>

theorem Where_appends_to_OR_root:
  "and_then
     (Query_Where wrap ''a'' (OpString ''=='') (JNumber (Finite 1))
        (new_Query (FromString ''c'') False))
     (Query_Where wrap ''b'' (OpString ''>'') (JNumber (Finite 2)))
   = (None, (new_Query (FromString ''c'') False)
        \<lparr>q_where := Some (CompositeFilter ''AND''
           [FieldFilter (fieldRef ''a'') (Member ''EQUAL'') (wrap (JNumber (Finite 1))),
            FieldFilter (fieldRef ''b'') (Member ''GREATER_THAN'')
              (wrap (JNumber (Finite 2)))])\<rparr>)
   \<and> and_then
       (Query_WhereOr [f1, f2] (new_Query (FromString ''c'') False))
       (Query_Where wrap ''b'' (OpString ''>'') (JNumber (Finite 2)))
     = (None, (new_Query (FromString ''c'') False)
          \<lparr>q_where := Some (CompositeFilter ''OR''
             [f1, f2,
              FieldFilter (fieldRef ''b'') (Member ''GREATER_THAN'')
                (wrap (JNumber (Finite 2)))])\<rparr>)"
  by (simp add: and_then_def Query_Where_def Query_WhereOr_def Query_filter_eq
      Query_filter_gt new_Query_def)

text \<open>
  C5, as the claim states it, fails when the root is already an \<open>AND\<close> composite:
  after \<^verbatim>\<open>Where('a', 'null').Where('b', 'null')\<close> the root is \<open>AND[a, b]\<close>, and
  \<^verbatim>\<open>WhereOr([f1, f2])\<close> makes it \<open>AND[a, b, OR[f1, f2]]\<close>, not an outer
  \<open>AND[AND[a, b], OR[f1, f2]]\<close>.
\<close>

theorem WhereOr_on_AND_root_counterexample:
  "q_where (snd (and_then
      (Query_Where (\<lambda>v. NullValue) ''a'' (OpString ''null'') JNull
         (new_Query (FromString ''c'') False))
      (Query_Where (\<lambda>v. NullValue) ''b'' (OpString ''null'') JNull)))
   = Some (CompositeFilter ''AND''
       [UnaryFilter (fieldRef ''a'') (Member ''IS_NULL''),
        UnaryFilter (fieldRef ''b'') (Member ''IS_NULL'')])
   \<and> q_where (snd (and_then (and_then
      (Query_Where (\<lambda>v. NullValue) ''a'' (OpString ''null'') JNull
         (new_Query (FromString ''c'') False))
      (Query_Where (\<lambda>v. NullValue) ''b'' (OpString ''null'') JNull))
      (Query_WhereOr
         [UnaryFilter (fieldRef ''x'') (Member ''IS_NULL''),
          UnaryFilter (fieldRef ''y'') (Member ''IS_NAN'')])))
   \<noteq> Some (CompositeFilter ''AND''
       [CompositeFilter ''AND''
          [UnaryFilter (fieldRef ''a'') (Member ''IS_NULL''),
           UnaryFilter (fieldRef ''b'') (Member ''IS_NULL'')],
        CompositeFilter ''OR''
          [UnaryFilter (fieldRef ''x'') (Member ''IS_NULL''),
           UnaryFilter (fieldRef ''y'') (Member ''IS_NAN'')]])"
  by (simp add: and_then_def Query_Where_def Query_WhereOr_def Query_filter_null_string
      new_Query_def)

text \<open>
  C5, amended. \<^verbatim>\<open>WhereOr(filters)\<close> throws, the query unchanged, when given fewer
  than two filters. Given two or more: with no root it sets the root to \<open>OR[filters]\<close>;
  with a root that is not an \<open>AND\<close> composite it sets the root to
  \<open>AND[root, OR[filters]]\<close>, so that \<^verbatim>\<open>Where(f0)\<close> on a query without a root followed
  by \<^verbatim>\<open>WhereOr(filters)\<close> gives \<open>AND[f0, OR[filters]]\<close>; with a root that is already
  an \<open>AND\<close> composite it appends \<open>OR[filters]\<close> to the children of that composite.
\<close>

theorem WhereOr_root:
  "(length filters < 2 \<longrightarrow>
      Query_WhereOr filters q = (Some (Error ''OR filter requires at least 2 filters''), q))
   \<and> (2 \<le> length filters \<and> q_where q = None \<longrightarrow>
      Query_WhereOr filters q = (None, q\<lparr>q_where := Some (CompositeFilter ''OR'' filters)\<rparr>))
   \<and> (2 \<le> length filters \<and> q_where q = Some w \<and> (\<forall>fs. w \<noteq> CompositeFilter ''AND'' fs) \<longrightarrow>
      Query_WhereOr filters q =
        (None, q\<lparr>q_where :=
           Some (CompositeFilter ''AND'' [w, CompositeFilter ''OR'' filters])\<rparr>))
   \<and> (2 \<le> length filters \<and> q_where q = Some (CompositeFilter ''AND'' fs) \<longrightarrow>
      Query_WhereOr filters q =
        (None, q\<lparr>q_where :=
           Some (CompositeFilter ''AND'' (fs @ [CompositeFilter ''OR'' filters]))\<rparr>))
   \<and> (2 \<le> length filters \<and> q_where q = None
        \<and> Query_filter wrap fld operator_a v = Inr f0 \<longrightarrow>
      and_then (Query_Where wrap fld operator_a v q) (Query_WhereOr filters) =
        (None, q\<lparr>q_where :=
           Some (CompositeFilter ''AND'' [f0, CompositeFilter ''OR'' filters])\<rparr>))"
proof (intro conjI impI)
  assume "length filters < 2"
  then show "Query_WhereOr filters q =
      (Some (Error ''OR filter requires at least 2 filters''), q)"
    by (simp add: Query_WhereOr_def)
next
  assume "2 \<le> length filters \<and> q_where q = None"
  then show "Query_WhereOr filters q =
      (None, q\<lparr>q_where := Some (CompositeFilter ''OR'' filters)\<rparr>)"
    by (simp add: Query_WhereOr_def)
next
  assume "2 \<le> length filters \<and> q_where q = Some w \<and> (\<forall>fs. w \<noteq> CompositeFilter ''AND'' fs)"
  then show "Query_WhereOr filters q =
      (None, q\<lparr>q_where := Some (CompositeFilter ''AND'' [w, CompositeFilter ''OR'' filters])\<rparr>)"
    by (cases w) (auto simp: Query_WhereOr_def)
next
  assume "2 \<le> length filters \<and> q_where q = Some (CompositeFilter ''AND'' fs)"
  then show "Query_WhereOr filters q =
      (None, q\<lparr>q_where :=
         Some (CompositeFilter ''AND'' (fs @ [CompositeFilter ''OR'' filters]))\<rparr>)"
    by (simp add: Query_WhereOr_def)
next
  assume a: "2 \<le> length filters \<and> q_where q = None
      \<and> Query_filter wrap fld operator_a v = Inr f0"
  then have "\<not> is_composite f0"
    using Query_filter_not_composite by blast
  with a show "and_then (Query_Where wrap fld operator_a v q) (Query_WhereOr filters) =
      (None, q\<lparr>q_where := Some (CompositeFilter ''AND'' [f0, CompositeFilter ''OR'' filters])\<rparr>)"
    by (cases f0) (auto simp: and_then_def Query_Where_def Query_WhereOr_def)
qed

theorem WhereOr_root_witness:
  "Query_WhereOr [UnaryFilter (fieldRef ''x'') (Member ''IS_NULL'')]
      (new_Query (FromString ''c'') False)
     = (Some (Error ''OR filter requires at least 2 filters''),
        new_Query (FromString ''c'') False)
   \<and> Query_WhereOr
       [UnaryFilter (fieldRef ''x'') (Member ''IS_NULL''),
        UnaryFilter (fieldRef ''y'') (Member ''IS_NAN'')]
       (new_Query (FromString ''c'') False)
     = (None, (new_Query (FromString ''c'') False)
         \<lparr>q_where := Some (CompositeFilter ''OR''
            [UnaryFilter (fieldRef ''x'') (Member ''IS_NULL''),
             UnaryFilter (fieldRef ''y'') (Member ''IS_NAN'')])\<rparr>)
   \<and> Query_WhereOr
       [UnaryFilter (fieldRef ''x'') (Member ''IS_NULL''),
        UnaryFilter (fieldRef ''y'') (Member ''IS_NAN'')]
       ((new_Query (FromString ''c'') False)
          \<lparr>q_where := Some (CompositeFilter ''OR'' [])\<rparr>)
     = (None, (new_Query (FromString ''c'') False)
         \<lparr>q_where := Some (CompositeFilter ''AND''
            [CompositeFilter ''OR'' [],
             CompositeFilter ''OR''
               [UnaryFilter (fieldRef ''x'') (Member ''IS_NULL''),
                UnaryFilter (fieldRef ''y'') (Member ''IS_NAN'')]])\<rparr>)
   \<and> Query_WhereOr
       [UnaryFilter (fieldRef ''x'') (Member ''IS_NULL''),
        UnaryFilter (fieldRef ''y'') (Member ''IS_NAN'')]
       ((new_Query (FromString ''c'') False)
          \<lparr>q_where := Some (CompositeFilter ''AND''
             [UnaryFilter (fieldRef ''a'') (Member ''IS_NULL'')])\<rparr>)
     = (None, (new_Query (FromString ''c'') False)
         \<lparr>q_where := Some (CompositeFilter ''AND''
            [UnaryFilter (fieldRef ''a'') (Member ''IS_NULL''),
             CompositeFilter ''OR''
               [UnaryFilter (fieldRef ''x'') (Member ''IS_NULL''),
                UnaryFilter (fieldRef ''y'') (Member ''IS_NAN'')]])\<rparr>)
   \<and> and_then
       (Query_Where (\<lambda>v. NullValue) ''a'' (OpString ''null'') JNull
          (new_Query (FromString ''c'') False))
       (Query_WhereOr
          [UnaryFilter (fieldRef ''x'') (Member ''IS_NULL''),
           UnaryFilter (fieldRef ''y'') (Member ''IS_NAN'')])
     = (None, (new_Query (FromString ''c'') False)
         \<lparr>q_where := Some (CompositeFilter ''AND''
            [UnaryFilter (fieldRef ''a'') (Member ''IS_NULL''),
             CompositeFilter ''OR''
               [UnaryFilter (fieldRef ''x'') (Member ''IS_NULL''),
                UnaryFilter (fieldRef ''y'') (Member ''IS_NAN'')]])\<rparr>)"
  using
    WhereOr_root [where filters = "[UnaryFilter (fieldRef ''x'') (Member ''IS_NULL'')]"
      and q = "new_Query (FromString ''c'') False"]
    WhereOr_root [where filters = "[UnaryFilter (fieldRef ''x'') (Member ''IS_NULL''),
        UnaryFilter (fieldRef ''y'') (Member ''IS_NAN'')]"
      and q = "new_Query (FromString ''c'') False"
      and wrap = "\<lambda>v. NullValue" and fld = "''a''" and operator_a = "OpString ''null''"
      and v = JNull and ?f0.0 = "UnaryFilter (fieldRef ''a'') (Member ''IS_NULL'')"]
    WhereOr_root [where filters = "[UnaryFilter (fieldRef ''x'') (Member ''IS_NULL''),
        UnaryFilter (fieldRef ''y'') (Member ''IS_NAN'')]"
      and q = "(new_Query (FromString ''c'') False)
          \<lparr>q_where := Some (CompositeFilter ''OR'' [])\<rparr>"
      and w = "CompositeFilter ''OR'' []"]
    WhereOr_root [where filters = "[UnaryFilter (fieldRef ''x'') (Member ''IS_NULL''),
        UnaryFilter (fieldRef ''y'') (Member ''IS_NAN'')]"
      and q = "(new_Query (FromString ''c'') False)
          \<lparr>q_where := Some (CompositeFilter ''AND''
             [UnaryFilter (fieldRef ''a'') (Member ''IS_NULL'')])\<rparr>"
      and fs = "[UnaryFilter (fieldRef ''a'') (Member ''IS_NULL'')]"]
  by (simp add: new_Query_def Query_filter_null_string)

subsection \<open>WriteBatch: commit\<close>

lemma first_failed_at:
  "k < length sts \<Longrightarrow> has_error_code (sts ! k) \<Longrightarrow> (\<forall>j<k. \<not> has_error_code (sts ! j)) \<Longrightarrow>
   first_failed i sts = Some (i + k, sts ! k)"
proof (induction sts arbitrary: i k)
  case Nil
  then show ?case by simp
next
  case (Cons st sts)
  show ?case
  proof (cases k)
    case 0
    with Cons.prems show ?thesis by simp
  next
    case (Suc k')
    from Cons.prems Suc have "\<not> has_error_code st" by auto
    moreover have "first_failed (Suc i) sts = Some (Suc i + k', sts ! k')"
      using Cons.prems Suc by (intro Cons.IH) auto
    ultimately show ?thesis using Suc by simp
  qed
qed

text \<open>
  C8. \<^verbatim>\<open>WriteBatch.commit()\<close> on an empty batch throws and leaves the world as it
  was: no request is sent. On a batch with writes the world afterwards is the world
  after one \<^verbatim>\<open>post\<close> of the request that carries all the pending writes. When that
  request returns a response, \<^verbatim>\<open>size()\<close> is 0 afterwards, whatever the statuses; and
  when the status at index \<open>i\<close> has a non-zero code and none before it has, the error
  thrown names \<open>i\<close> and that status's message (\<^verbatim>\<open>'Unknown error'\<close> for a status
  without one).
\<close>

theorem WriteBatch_commit_spec:
  "(wb_writes b = [] \<longrightarrow>
      WriteBatch_commit post b w = (Inl (Error ''Cannot commit empty batch''), b, w))
   \<and> (wb_writes b \<noteq> [] \<longrightarrow>
      snd (snd (WriteBatch_commit post b w)) =
        snd (post (batchWriteUrl b) (wb_authToken b) (BatchWriteRequest (wb_writes b)) w))
   \<and> (wb_writes b \<noteq> []
        \<and> post (batchWriteUrl b) (wb_authToken b) (BatchWriteRequest (wb_writes b)) w
            = (Inr resp, w') \<longrightarrow>
      WriteBatch_size (fst (snd (WriteBatch_commit post b w))) = 0)
   \<and> (wb_writes b \<noteq> []
        \<and> post (batchWriteUrl b) (wb_authToken b) (BatchWriteRequest (wb_writes b)) w
            = (Inr resp, w')
        \<and> r_status resp = Some sts \<and> i < length sts \<and> has_error_code (sts ! i)
        \<and> (\<forall>j<i. \<not> has_error_code (sts ! j)) \<longrightarrow>
      fst (WriteBatch_commit post b w) =
        Inl (Error (''Batch write operation '' @ show_nat i @ '' failed: ''
                    @ message_or_unknown (sts ! i))))"
proof (intro conjI impI)
  assume "wb_writes b = []"
  then show "WriteBatch_commit post b w = (Inl (Error ''Cannot commit empty batch''), b, w)"
    by (simp add: WriteBatch_commit_def)
next
  assume "wb_writes b \<noteq> []"
  then show "snd (snd (WriteBatch_commit post b w)) =
        snd (post (batchWriteUrl b) (wb_authToken b) (BatchWriteRequest (wb_writes b)) w)"
    by (simp add: WriteBatch_commit_def Let_def split: prod.splits sum.splits option.splits)
next
  assume "wb_writes b \<noteq> []
        \<and> post (batchWriteUrl b) (wb_authToken b) (BatchWriteRequest (wb_writes b)) w
            = (Inr resp, w')"
  then show "WriteBatch_size (fst (snd (WriteBatch_commit post b w))) = 0"
    by (simp add: WriteBatch_commit_def WriteBatch_size_def Let_def split: option.splits)
next
  assume a: "wb_writes b \<noteq> []
        \<and> post (batchWriteUrl b) (wb_authToken b) (BatchWriteRequest (wb_writes b)) w
            = (Inr resp, w')
        \<and> r_status resp = Some sts \<and> i < length sts \<and> has_error_code (sts ! i)
        \<and> (\<forall>j<i. \<not> has_error_code (sts ! j))"
  then have "first_failed 0 sts = Some (i, sts ! i)"
    using first_failed_at [of i sts 0] by simp
  with a show "fst (WriteBatch_commit post b w) =
        Inl (Error (''Batch write operation '' @ show_nat i @ '' failed: ''
                    @ message_or_unknown (sts ! i)))"
    by (simp add: WriteBatch_commit_def batch_failed_def)
qed

lemma sample_batch_writes:
  "wb_writes sample_batch =
     [\<lparr> w_op = Delete ''p/documents/c/d'', w_updateMask = None, w_currentDocument = None \<rparr>,
      \<lparr> w_op = Delete ''p/documents/c/e'', w_updateMask = None, w_currentDocument = None \<rparr>]"
  by (simp add: sample_batch_def WriteBatch_delete_def new_WriteBatch_def
      WriteBatch_getFullDocumentPath_def strip_trailing_slash_def strip_leading_slash_def)

theorem WriteBatch_commit_spec_witness:
  "WriteBatch_commit recording_post (new_WriteBatch ''u'' ''p'' ''t'') []
     = (Inl (Error ''Cannot commit empty batch''), new_WriteBatch ''u'' ''p'' ''t'', [])
   \<and> snd (snd (WriteBatch_commit recording_post sample_batch []))
     = [BatchWriteRequest
         [\<lparr> w_op = Delete ''p/documents/c/d'', w_updateMask = None,
             w_currentDocument = None \<rparr>,
          \<lparr> w_op = Delete ''p/documents/c/e'', w_updateMask = None,
             w_currentDocument = None \<rparr>]]
   \<and> WriteBatch_size (fst (snd (WriteBatch_commit recording_post sample_batch []))) = 0
   \<and> fst (WriteBatch_commit recording_post sample_batch [])
     = Inl (Error ''Batch write operation 1 failed: boom'')"
  using
    WriteBatch_commit_spec [where post = recording_post
      and b = "new_WriteBatch ''u'' ''p'' ''t''" and w = "[]"]
    WriteBatch_commit_spec [where post = recording_post and b = sample_batch and w = "[]"
      and resp = sample_response and w' = "[BatchWriteRequest (wb_writes sample_batch)]"
      and sts = "[\<lparr> st_code = Some 0, st_message = None \<rparr>,
                  \<lparr> st_code = Some 3, st_message = Some ''boom'' \<rparr>,
                  \<lparr> st_code = Some 5, st_message = Some ''later'' \<rparr>]"
      and i = 1]
  by (simp add: sample_batch_writes recording_post_def sample_response_def new_WriteBatch_def
      has_error_code_def message_or_unknown_def show_nat.simps digit_char_def)

subsection \<open>WriteBatch: transform\<close>








text \<open>
  C10. The payload \<open>0\<close> of \<^verbatim>\<open>arrayUnion\<close> is a single non-array value, but it is
  falsy, and \<^verbatim>\<open>else if (transform.arrayUnion)\<close> skips the entry: nothing is staged,
  whereas the one-element array \<open>[0]\<close> gives the values list \<open>[wrap 0]\<close>, and so does
  the truthy single value \<open>7\<close>. The same holds for \<^verbatim>\<open>arrayRemove\<close> of the empty
  string. The sibling branch tests \<^verbatim>\<open>transform.increment !== undefined\<close> and accepts
  an increment of \<open>0\<close>.
\<close>

theorem transform_drops_falsy_arrayUnion:
  "transform_entry wrap (''tags'', JObject [(''arrayUnion'', JNumber (Finite 0))]) = None
   \<and> transform_entry wrap (''tags'', JObject [(''arrayUnion'', JArray [JNumber (Finite 0)])])
     = Some (FieldTransform (quote_field ''tags'')
               (AppendMissingElements [wrap (JNumber (Finite 0))]))
   \<and> transform_entry wrap (''tags'', JObject [(''arrayUnion'', JNumber (Finite 7))])
     = Some (FieldTransform (quote_field ''tags'')
               (AppendMissingElements [wrap (JNumber (Finite 7))]))
   \<and> WriteBatch_transform wrap clean ''c/d''
        [(''tags'', JObject [(''arrayUnion'', JNumber (Finite 0))])] b = (None, b)
   \<and> transform_entry wrap (''tags'', JObject [(''arrayRemove'', JString '''')]) = None
   \<and> transform_entry wrap (''n'', JObject [(''increment'', JNumber (Finite 0))])
     = Some (FieldTransform (quote_field ''n'') (Increment (wrap (JNumber (Finite 0)))))"
  by (simp add: transform_entry_def WriteBatch_transform_def)

subsection \<open>Transaction: commit and rollback\<close>

text \<open>
  C3, as the claim states it, fails when the request throws: \<^verbatim>\<open>commit()\<close> and
  \<^verbatim>\<open>rollback()\<close> on an active transaction then return the error and leave the
  transaction as it was, active, with its pending write and its id.
\<close>

theorem commit_after_failed_rpc_counterexample:
  "Transaction_commit failing_host active_transaction ()
     = (Inl (Error ''UNAVAILABLE''), active_transaction, ())
   \<and> Transaction_rollback failing_host active_transaction ()
     = (Inl (Error ''UNAVAILABLE''), active_transaction, ())
   \<and> tx_isActive active_transaction
   \<and> tx_writes active_transaction \<noteq> []
   \<and> tx_transactionId active_transaction = Some ''abc''"
  by (simp add: Transaction_commit_def Transaction_rollback_def commit_rpc_def rollback_rpc_def
      failing_host_def active_transaction_def)

text \<open>
  C3, amended. On an active transaction, \<^verbatim>\<open>commit()\<close> (or \<^verbatim>\<open>rollback()\<close>) whose
  request succeeds resets the state to inactive and clears the pending writes and the
  transaction id, and a new \<^verbatim>\<open>begin()\<close> on the instance is then accepted: it makes the
  transaction active again once its own request succeeds. When the request of
  \<^verbatim>\<open>commit()\<close> (or \<^verbatim>\<open>rollback()\<close>) throws, the error is propagated and the
  transaction is left unchanged.
\<close>

theorem commit_rollback_reset:
  "tx_isActive tx \<Longrightarrow>
     (commit_rpc host tx w = (Inr resp, w') \<longrightarrow>
        Transaction_commit host tx w =
          (Inr (results_or_empty resp),
           tx\<lparr>tx_isActive := False, tx_writes := [], tx_transactionId := None\<rparr>, w'))
   \<and> (commit_rpc host tx w = (Inl e, w') \<longrightarrow> Transaction_commit host tx w = (Inl e, tx, w'))
   \<and> (rollback_rpc host tx w = (Inr resp, w') \<longrightarrow>
        Transaction_rollback host tx w =
          (Inr resp, tx\<lparr>tx_isActive := False, tx_writes := [], tx_transactionId := None\<rparr>, w'))
   \<and> (rollback_rpc host tx w = (Inl e, w') \<longrightarrow> Transaction_rollback host tx w = (Inl e, tx, w'))
   \<and> (begin_rpc host options
          (tx\<lparr>tx_isActive := False, tx_writes := [], tx_transactionId := None\<rparr>) w2
        = (Inr resp2, w3) \<longrightarrow>
        fst (Transaction_begin host options
               (tx\<lparr>tx_isActive := False, tx_writes := [], tx_transactionId := None\<rparr>) w2)
          = Inr ()
        \<and> tx_isActive (fst (snd (Transaction_begin host options
               (tx\<lparr>tx_isActive := False, tx_writes := [], tx_transactionId := None\<rparr>) w2))))"
  by (simp add: Transaction_commit_def Transaction_rollback_def Transaction_begin_def Let_def)

theorem commit_rollback_reset_witness:
  "tx_isActive active_transaction
   \<and> Transaction_commit recording_host active_transaction ([], [])
     = (Inr [],
        active_transaction\<lparr>tx_isActive := False, tx_writes := [], tx_transactionId := None\<rparr>,
        ([CommitRequest (tx_writes active_transaction) (Some ''abc'')], []))
   \<and> Transaction_commit failing_host active_transaction ()
     = (Inl (Error ''UNAVAILABLE''), active_transaction, ())
   \<and> Transaction_rollback recording_host active_transaction ([], [])
     = (Inr \<lparr> r_transaction = Some ''abc'', r_writeResults = None, r_status = None \<rparr>,
        active_transaction\<lparr>tx_isActive := False, tx_writes := [], tx_transactionId := None\<rparr>,
        ([RollbackRequest (Some ''abc'')], []))
   \<and> Transaction_rollback failing_host active_transaction ()
     = (Inl (Error ''UNAVAILABLE''), active_transaction, ())
   \<and> fst (Transaction_begin recording_host None
        (active_transaction\<lparr>tx_isActive := False, tx_writes := [], tx_transactionId := None\<rparr>)
        ([], [])) = Inr ()
   \<and> tx_isActive (fst (snd (Transaction_begin recording_host None
        (active_transaction\<lparr>tx_isActive := False, tx_writes := [], tx_transactionId := None\<rparr>)
        ([], []))))"
proof -
  have active: "tx_isActive active_transaction"
    by (simp add: active_transaction_def)
  show ?thesis
    using
      commit_rollback_reset [OF active, where host = recording_host and w = "([], [])"
        and resp = "\<lparr> r_transaction = Some ''abc'', r_writeResults = None, r_status = None \<rparr>"
        and options = None and ?w2.0 = "([], [])"]
      commit_rollback_reset [OF active, where host = failing_host and w = "()"
        and e = "Error ''UNAVAILABLE''" and w' = "()"]
    by (simp add: active commit_rpc_def rollback_rpc_def begin_rpc_def recording_host_def
        failing_host_def results_or_empty_def active_transaction_def)
qed

subsection \<open>Firestore: runTransaction\<close>






text \<open>
  What the outcome of an attempt stands for: it is the outcome of the \<^verbatim>\<open>try\<close> block
  on a fresh transaction, which succeeds exactly when \<^verbatim>\<open>begin\<close>, the user's
  function and \<^verbatim>\<open>commit\<close> all succeed, with the result of the user's function.
\<close>

lemma attempt_once_outcome:
  "fst (attempt_once host fs fn options w) =
   fst (try_block host fn options (Firestore_transaction fs) w)"
  by (simp add: attempt_once_def split: prod.splits sum.splits)

lemma try_block_succeeds_iff:
  "try_block host fn options tx w = (Inr result, tx', w') \<longleftrightarrow>
   (\<exists>tx1 w1 tx2 w2 rs.
      Transaction_begin host options tx w = (Inr (), tx1, w1) \<and>
      fn tx1 w1 = (Inr result, tx2, w2) \<and>
      Transaction_commit host tx2 w2 = (Inr rs, tx', w'))"
  by (auto simp: try_block_def split: prod.splits sum.splits)

lemma fresh_transaction:
  "\<not> tx_isActive (Firestore_transaction fs) \<and> tx_writes (Firestore_transaction fs) = []
   \<and> tx_transactionId (Firestore_transaction fs) = None"
  by (simp add: Firestore_transaction_def new_Transaction_def)

text \<open>With a negative \<^verbatim>\<open>maxRetries\<close> the loop makes no attempt at all.\<close>

lemma runTransaction_negative:
  "n < 0 \<Longrightarrow>
   runTransaction host fs fn options (Some n) w =
     (Inl (Error ''Transaction failed after maximum retries''), [], w)"
  by (simp add: runTransaction_def runTransaction_loop.simps)







text \<open>Left out, \<^verbatim>\<open>maxRetries\<close> is 5.\<close>

lemma runTransaction_default:
  "runTransaction host fs fn options None w = runTransaction host fs fn options (Some 5) w"
  by (simp add: runTransaction_def)




subsection \<open>The value codec: round trip\<close>

lemma digit_value_digit_char: "d < 10 \<Longrightarrow> digit_value (digit_char d) = d"
proof -
  assume "d < 10"
  then have "d \<in> {0, 1, 2, 3, 4, 5, 6, 7, 8, 9}" by auto
  then show ?thesis
    by (auto simp: digit_value_def digit_char_def)
qed

lemma digit_char_not_minus: "d < 10 \<Longrightarrow> digit_char d \<noteq> CHR ''-''"
proof -
  assume "d < 10"
  then have "d \<in> {0, 1, 2, 3, 4, 5, 6, 7, 8, 9}" by auto
  then show ?thesis
    by (auto simp: digit_char_def)
qed

lemma parse_nat_snoc: "parse_nat (s @ [c]) = parse_nat s * 10 + digit_value c"
  by (simp add: parse_nat_def)

lemma parse_nat_show_nat: "parse_nat (show_nat n) = n"
proof (induction n rule: show_nat.induct)
  case (1 n)
  show ?case
  proof (cases "n < 10")
    case True
    then show ?thesis
      by (simp add: show_nat.simps [of n] parse_nat_def digit_value_digit_char)
  next
    case False
    then have "parse_nat (show_nat n) = parse_nat (show_nat (n div 10)) * 10 + n mod 10"
      by (simp add: show_nat.simps [of n] parse_nat_snoc digit_value_digit_char)
    with False "1.IH" show ?thesis by simp
  qed
qed

lemma show_nat_head: "\<exists>c cs. show_nat n = c # cs \<and> c \<noteq> CHR ''-''"
proof (induction n rule: show_nat.induct)
  case (1 n)
  show ?case
  proof (cases "n < 10")
    case True
    then show ?thesis
      by (simp add: show_nat.simps [of n] digit_char_not_minus)
  next
    case False
    with "1.IH" obtain c cs where "show_nat (n div 10) = c # cs" "c \<noteq> CHR ''-''" by blast
    with False show ?thesis
      by (simp add: show_nat.simps [of n])
  qed
qed

lemma parse_int_show_int: "parse_int (show_int i) = i"
proof (cases "i < 0")
  case True
  then show ?thesis
    by (simp add: parse_int_def show_int_def parse_nat_show_nat)
next
  case False
  obtain c cs where "show_nat (nat i) = c # cs" "c \<noteq> CHR ''-''"
    using show_nat_head by blast
  with False show ?thesis
    using parse_nat_show_nat [of "nat i"]
    by (simp add: parse_int_def show_int_def)
qed

lemma geo_point_Some:
  "geo_point kvs = Some (lat, lng) \<Longrightarrow>
   kvs = [(''latitude'', JNumber lat), (''longitude'', JNumber lng)] \<or>
   kvs = [(''longitude'', JNumber lng), (''latitude'', JNumber lat)]"
  by (induction kvs rule: geo_point.induct) (auto split: if_splits)

lemma roundtrip_number:
  "representable (JNumber x) \<Longrightarrow>
   deep_equal (unwrapValue (wrapValue isPath (JNumber x))) (JNumber x)"
proof (cases x)
  case NaN
  assume "representable (JNumber x)"
  with NaN show ?thesis by simp
next
  case (Finite r)
  show ?thesis
  proof (cases "is_int r")
    case True
    then have eq: "r = rat_of_int \<lfloor>r\<rfloor>"
      unfolding is_int_def .
    have "unwrapValue (wrapValue isPath (JNumber x)) = JNumber (Finite (rat_of_int \<lfloor>r\<rfloor>))"
      using True Finite by (simp add: parse_int_show_int)
    also have "\<dots> = JNumber (Finite r)"
      using eq [symmetric] by (simp only:)
    finally show ?thesis
      using Finite by simp
  next
    case False
    with Finite show ?thesis by simp
  qed
qed

text \<open>
  C1. For every representable native value \<open>v\<close>, and whatever the reference-path
  pattern, unwrapping the wrapped value gives a value deep-equal to \<open>v\<close>.
\<close>

theorem unwrap_wrap_roundtrip:
  "representable v \<Longrightarrow> deep_equal (unwrapValue (wrapValue isPath v)) v"
proof (induction v)
  case (JNumber x)
  then show ?case by (rule roundtrip_number)
next
  case (JArray xs)
  then have "\<forall>x\<in>set xs. deep_equal (unwrapValue (wrapValue isPath x)) x"
    by (simp add: list_all_iff)
  then show ?case
    by (simp add: list_all2_map1 list_all2_same)
next
  case (JObject kvs)
  from JObject.prems have dist: "distinct (map fst kvs)"
    and rep: "\<forall>(k, v)\<in>set kvs. representable v"
    by (auto simp: list_all_iff)
  show ?case
  proof (cases "geo_point kvs")
    case (Some p)
    obtain lat lng where p: "p = (lat, lng)" by (cases p)
    from Some p have "kvs = [(''latitude'', JNumber lat), (''longitude'', JNumber lng)] \<or>
        kvs = [(''longitude'', JNumber lng), (''latitude'', JNumber lat)]"
      using geo_point_Some by blast
    moreover from this rep have "lat \<noteq> NaN \<and> lng \<noteq> NaN" by auto
    ultimately show ?thesis using Some p by auto
  next
    case None
    have "deep_equal (unwrapValue (wrapValue isPath v)) v \<and> map_of kvs k = Some v"
      if "(k, v) \<in> set kvs" for k v
    proof -
      from that rep have "representable v" by auto
      moreover from that have "v \<in> Basic_BNFs.snds (k, v)" by simp
      ultimately have "deep_equal (unwrapValue (wrapValue isPath v)) v"
        using JObject.IH that by blast
      moreover have "map_of kvs k = Some v" using that dist by simp
      ultimately show ?thesis by simp
    qed
    with None show ?thesis
      by (auto simp: list_all_iff)
  qed
qed simp_all

lemma three_halves_not_int: "\<not> is_int (3 / 2)"
  by code_simp

lemma sample_value_representable: "representable sample_value"
  by (simp add: sample_value_def three_halves_not_int is_int_def)

theorem unwrap_wrap_roundtrip_witness:
  "representable sample_value
   \<and> wrapValue (\<lambda>s. startsWith s ''projects/'') sample_value =
       MapValue
         [(''n'', IntegerValue ''42''),
          (''ratio'', DoubleValue (Finite (3 / 2))),
          (''xs'', ArrayValue [StringValue ''a'', NullValue, BooleanValue True,
                              IntegerValue ''-7'']),
          (''place'', GeoPointValue (Finite 29) (Finite 31)),
          (''at'', TimestampValue 1700000000000),
          (''ref'', ReferenceValue ''projects/p/databases/(default)/documents/c/d'')]
   \<and> deep_equal
       (unwrapValue (wrapValue (\<lambda>s. startsWith s ''projects/'') sample_value))
       sample_value"
  using unwrap_wrap_roundtrip [OF sample_value_representable,
      of "\<lambda>s. startsWith s ''projects/''"]
  by (simp add: sample_value_representable)
     (simp add: sample_value_def three_halves_not_int startsWith_def show_int_def
        show_nat.simps digit_char_def, simp add: is_int_def)

end
